theory Spec2Isabelle
  imports Main "HOL-Library.Sublist"
begin

section \<open>JavaScript string primitives used by the generator, the validator and the routes\<close>

text \<open>
  Query texts are modelled as \<open>string\<close> (a list of 8-bit characters) and read as ASCII
  text. \<open>String.prototype.trim\<close> strips the ASCII white space and line terminators
  (TAB, LF, VT, FF, CR, SPACE) on both sides; \<open>toLowerCase\<close> maps \<open>A\<close>..\<open>Z\<close> to
  \<open>a\<close>..\<open>z\<close>. The non-ASCII white space and letters of JavaScript lie outside the
  modelled alphabet.
\<close>

definition isWhiteSpace :: "char \<Rightarrow> bool" where
  "isWhiteSpace c \<longleftrightarrow>
     c = CHR 0x09 \<or> c = CHR 0x0A \<or> c = CHR 0x0B \<or> c = CHR 0x0C \<or> c = CHR 0x0D \<or> c = CHR '' ''"

definition trim :: "string \<Rightarrow> string" where
  "trim s = rev (dropWhile isWhiteSpace (rev (dropWhile isWhiteSpace s)))"

definition lowerChar :: "char \<Rightarrow> char" where
  "lowerChar c =
     (let n = (of_char c :: nat) in if 65 \<le> n \<and> n \<le> 90 then char_of (n + 32) else c)"

definition toLowerCase :: "string \<Rightarrow> string" where
  "toLowerCase s = map lowerChar s"

text \<open>\<open>s.startsWith(p)\<close>\<close>

fun startsWith :: "string \<Rightarrow> string \<Rightarrow> bool" where
  "startsWith s [] = True"
| "startsWith [] (p # ps) = False"
| "startsWith (c # cs) (p # ps) = (c = p \<and> startsWith cs ps)"

text \<open>\<open>s.includes(k)\<close>: \<open>k\<close> occurs in \<open>s\<close> at some position.\<close>

fun includes_str :: "string \<Rightarrow> string \<Rightarrow> bool" where
  "includes_str [] k = (k = [])"
| "includes_str (c # cs) k = (startsWith (c # cs) k \<or> includes_str cs k)"

text \<open>\<open>(s.match(/c/g) || []).length\<close> for a single literal character \<open>c\<close>.\<close>

definition matchCount :: "char \<Rightarrow> string \<Rightarrow> nat" where
  "matchCount c s = length (filter (\<lambda>d. d = c) s)"

text \<open>\<open>xs.join(sep)\<close> on an array of strings.\<close>

fun join_str :: "string \<Rightarrow> string list \<Rightarrow> string" where
  "join_str sep [] = []"
| "join_str sep [x] = x"
| "join_str sep (x # y # ys) = x @ sep @ join_str sep (y # ys)"


section \<open>The validator: \<open>SQLGenerator.validateSQL\<close>\<close>

record ValidationResult =
  isValid :: bool
  errors :: "string list"

definition dangerousKeywords :: "string list" where
  "dangerousKeywords =
     [''drop'', ''delete'', ''update'', ''insert'', ''alter'', ''create'', ''truncate'']"

text \<open>
  The body of \<open>validateSQL\<close>, one \<open>errors.push\<close> after the other: \<open>errors1\<close> ..
  \<open>errors4\<close> are the array after each of the four checks.
\<close>

definition validateSQL :: "string \<Rightarrow> ValidationResult" where
  "validateSQL sql =
     (let errors0 = [];
          normalizedSql = toLowerCase (trim sql);
          errors1 = (if \<not> startsWith normalizedSql ''select''
                     then errors0 @ [''Query must start with SELECT''] else errors0);
          errors2 = (if \<not> includes_str normalizedSql ''from''
                     then errors1 @ [''Query must include FROM clause''] else errors1);
          openParens = matchCount (CHR ''('') sql;
          closeParens = matchCount (CHR '')'') sql;
          errors3 = (if openParens \<noteq> closeParens
                     then errors2 @ [''Unbalanced parentheses in query''] else errors2);
          hasDangerousKeywords =
            list_ex (\<lambda>keyword. includes_str normalizedSql keyword) dangerousKeywords;
          errors4 = (if hasDangerousKeywords
                     then errors3 @ [''Query contains restricted keywords''] else errors3)
      in \<lparr> isValid = (length errors4 = 0), errors = errors4 \<rparr>)"


section \<open>The execute and export routes of \<open>registerRoutes\<close>\<close>

text \<open>
  A route either answers with a status and a message, or hands the text to
  \<open>storage.executeQuery\<close> (the external executor). \<open>executeQuerySchema\<close> is
  \<open>z.object({ sql: z.string().min(1) })\<close>: an empty text makes \<open>parse\<close> throw, and
  the handler's \<open>catch\<close> answers 400 "Query execution failed" (execute) or
  400 "Export failed" (export).
\<close>

datatype route_outcome =
    Responded nat string
  | PassedToExecutor string

definition executeQuerySchema_parse :: "string \<Rightarrow> string option" where
  "executeQuerySchema_parse sql = (if 1 \<le> length sql then Some sql else None)"

definition execute_route :: "string \<Rightarrow> route_outcome" where
  "execute_route body_sql =
     (case executeQuerySchema_parse body_sql of
        None \<Rightarrow> Responded 400 ''Query execution failed''
      | Some sql \<Rightarrow>
          (let normalizedSql = toLowerCase (trim sql) in
           if startsWith normalizedSql ''drop'' \<or>
              startsWith normalizedSql ''delete'' \<or>
              startsWith normalizedSql ''update'' \<or>
              startsWith normalizedSql ''insert'' \<or>
              startsWith normalizedSql ''alter'' \<or>
              startsWith normalizedSql ''create''
           then Responded 400 ''Only SELECT queries are allowed for security reasons''
           else PassedToExecutor sql))"

definition export_route :: "string \<Rightarrow> route_outcome" where
  "export_route body_sql =
     (case executeQuerySchema_parse body_sql of
        None \<Rightarrow> Responded 400 ''Export failed''
      | Some sql \<Rightarrow>
          (let normalizedSql = toLowerCase (trim sql) in
           if \<not> startsWith normalizedSql ''select''
           then Responded 400 ''Only SELECT queries are allowed for export''
           else PassedToExecutor sql))"


section \<open>\<open>isNaN(Number(value))\<close> on a string\<close>

text \<open>
  \<open>Number(s)\<close> is NaN exactly when \<open>s\<close> is not a \<open>StringNumericLiteral\<close> of
  ECMAScript: optional white space around nothing (the empty text converts to 0), around a
  signed decimal literal (\<open>Infinity\<close>, digits with an optional fraction and exponent,
  or a fraction starting with the dot), or around an unsigned \<open>0x\<close>, \<open>0o\<close> or \<open>0b\<close>
  integer.
\<close>

definition isDecimalDigit :: "char \<Rightarrow> bool" where
  "isDecimalDigit c \<longleftrightarrow> c \<in> set ''0123456789''"

definition isHexDigit :: "char \<Rightarrow> bool" where
  "isHexDigit c \<longleftrightarrow> c \<in> set ''0123456789abcdefABCDEF''"

definition isOctalDigit :: "char \<Rightarrow> bool" where
  "isOctalDigit c \<longleftrightarrow> c \<in> set ''01234567''"

definition isBinaryDigit :: "char \<Rightarrow> bool" where
  "isBinaryDigit c \<longleftrightarrow> c \<in> set ''01''"

definition isDecimalDigits :: "string \<Rightarrow> bool" where
  "isDecimalDigits s \<longleftrightarrow> s \<noteq> [] \<and> list_all isDecimalDigit s"

definition isSignedInteger :: "string \<Rightarrow> bool" where
  "isSignedInteger s =
     (case s of
        [] \<Rightarrow> False
      | c # cs \<Rightarrow> if c = CHR ''+'' \<or> c = CHR ''-'' then isDecimalDigits cs
                  else isDecimalDigits s)"

definition isExponentPartOpt :: "string \<Rightarrow> bool" where
  "isExponentPartOpt s =
     (case s of
        [] \<Rightarrow> True
      | c # cs \<Rightarrow> (c = CHR ''e'' \<or> c = CHR ''E'') \<and> isSignedInteger cs)"

definition isStrUnsignedDecimalLiteral :: "string \<Rightarrow> bool" where
  "isStrUnsignedDecimalLiteral s =
     (s = ''Infinity'' \<or>
      (let ds = takeWhile isDecimalDigit s; r = dropWhile isDecimalDigit s in
       if ds \<noteq> [] then
         (case r of
            [] \<Rightarrow> True
          | c # r' \<Rightarrow> if c = CHR ''.'' then isExponentPartOpt (dropWhile isDecimalDigit r')
                      else isExponentPartOpt r)
       else
         (case r of
            [] \<Rightarrow> False
          | c # r' \<Rightarrow> c = CHR ''.'' \<and> takeWhile isDecimalDigit r' \<noteq> [] \<and>
                        isExponentPartOpt (dropWhile isDecimalDigit r'))))"

definition isStrDecimalLiteral :: "string \<Rightarrow> bool" where
  "isStrDecimalLiteral s =
     (case s of
        [] \<Rightarrow> False
      | c # cs \<Rightarrow> if c = CHR ''+'' \<or> c = CHR ''-'' then isStrUnsignedDecimalLiteral cs
                  else isStrUnsignedDecimalLiteral s)"

definition isNonDecimalIntegerLiteral :: "string \<Rightarrow> bool" where
  "isNonDecimalIntegerLiteral s =
     (case s of
        z # x # ds \<Rightarrow>
          z = CHR ''0'' \<and> ds \<noteq> [] \<and>
          ((x = CHR ''x'' \<or> x = CHR ''X'') \<and> list_all isHexDigit ds \<or>
           (x = CHR ''o'' \<or> x = CHR ''O'') \<and> list_all isOctalDigit ds \<or>
           (x = CHR ''b'' \<or> x = CHR ''B'') \<and> list_all isBinaryDigit ds)
      | _ \<Rightarrow> False)"

definition isStringNumericLiteral :: "string \<Rightarrow> bool" where
  "isStringNumericLiteral s =
     (let t = trim s in t = [] \<or> isStrDecimalLiteral t \<or> isNonDecimalIntegerLiteral t)"

definition Number_isNaN :: "string \<Rightarrow> bool" where
  "Number_isNaN s \<longleftrightarrow> \<not> isStringNumericLiteral s"


section \<open>The configuration model (\<open>types/query\<close>)\<close>

text \<open>
  The interfaces of \<open>types/query\<close> as records, a union of string literals as a
  datatype, an optional field as an \<open>option\<close>. A field whose name is taken in
  Isabelle/HOL, or shared by two interfaces, carries a prefix or suffix: \<open>id\<close> is
  \<open>col_id\<close>, \<open>cond_id\<close>, \<open>join_id\<close> and \<open>ac_id\<close>; \<open>alias\<close> is \<open>alias_name\<close>;
  \<open>function\<close> is \<open>function_name\<close>; \<open>value\<close> is \<open>cond_value\<close>; \<open>type\<close> is
  \<open>jtype\<close>; \<open>distinct\<close> is \<open>distinct_flag\<close>; the \<open>logicalOperator\<close> of the
  configuration is \<open>config_logicalOperator\<close>; the fields of an additional join condition
  and of an \<open>orderBy\<close> entry start with \<open>ac_\<close> and \<open>ord_\<close>.
\<close>

datatype logical_operator = AND | OR

datatype join_type = INNER | LEFT | RIGHT | OUTER

datatype direction = ASC | DESC

record SelectedColumn =
  col_id :: string
  tableName :: string
  columnName :: string
  alias_name :: "string option"
  function_name :: "string option"
  functionParams :: "string list option"

record QueryCondition =
  cond_id :: string
  column :: string
  operator :: string
  cond_value :: string
  logicalOperator :: "logical_operator option"

record AdditionalCondition =
  ac_id :: string
  ac_leftColumn :: string
  ac_rightColumn :: string

record QueryJoin =
  join_id :: string
  jtype :: join_type
  leftTable :: string
  leftColumn :: string
  rightTable :: string
  rightColumn :: string
  additionalConditions :: "AdditionalCondition list option"

record OrderEntry =
  ord_column :: string
  ord_direction :: direction

text \<open>
  \<open>limit\<close> is the integer that the limit input field parses (\<open>parseInt\<close>), or
  undefined (\<open>None\<close>; a NaN is falsy like undefined, and is read as \<open>None\<close> too). It is
  rendered in decimal, as JavaScript renders an integer below \<open>10^21\<close>.
\<close>

record QueryConfig =
  selectedTables :: "string list"
  selectedColumns :: "SelectedColumn list"
  conditions :: "QueryCondition list"
  joins :: "QueryJoin list"
  groupBy :: "string list"
  orderBy :: "OrderEntry list"
  limit :: "int option"
  distinct_flag :: bool
  config_logicalOperator :: "logical_operator option"

fun logical_operator_text :: "logical_operator \<Rightarrow> string" where
  "logical_operator_text AND = ''AND''"
| "logical_operator_text OR = ''OR''"

fun join_type_text :: "join_type \<Rightarrow> string" where
  "join_type_text INNER = ''INNER''"
| "join_type_text LEFT = ''LEFT''"
| "join_type_text RIGHT = ''RIGHT''"
| "join_type_text OUTER = ''OUTER''"

fun direction_text :: "direction \<Rightarrow> string" where
  "direction_text ASC = ''ASC''"
| "direction_text DESC = ''DESC''"

fun natToString :: "nat \<Rightarrow> string" where
  "natToString n =
     (if n < 10 then [char_of (48 + n)]
      else natToString (n div 10) @ [char_of (48 + n mod 10)])"

definition numberToString :: "int \<Rightarrow> string" where
  "numberToString i = (if i < 0 then ''-'' @ natToString (nat (- i)) else natToString (nat i))"

declare natToString.simps [simp del]


section \<open>The generator: \<open>SQLGenerator.generateSQL\<close>\<close>

text \<open>
  An optional string is truthy when it is present and not empty (\<open>if (col.function)\<close>,
  \<open>if (col.alias)\<close>).
\<close>

definition truthy :: "string option \<Rightarrow> bool" where
  "truthy v = (case v of None \<Rightarrow> False | Some s \<Rightarrow> s \<noteq> [])"

text \<open>
  The \<open>switch (col.function)\<close>: a function name outside the ten cases leaves the
  expression as it is.
\<close>

definition applyFunction :: "string \<Rightarrow> SelectedColumn \<Rightarrow> string \<Rightarrow> string" where
  "applyFunction f col columnExpr =
     (if f = ''DATE_TRUNC'' then ''DATE_TRUNC('day', '' @ columnExpr @ '')''
      else if f = ''EXTRACT'' then ''EXTRACT(year FROM '' @ columnExpr @ '')''
      else if f = ''COUNT'' then
        (if columnName col = ''*'' then ''COUNT(*)'' else ''COUNT('' @ columnExpr @ '')'')
      else if f = ''SUM'' \<or> f = ''AVG'' \<or> f = ''MIN'' \<or> f = ''MAX'' \<or>
              f = ''UPPER'' \<or> f = ''LOWER'' \<or> f = ''LENGTH''
        then f @ ''('' @ columnExpr @ '')''
      else columnExpr)"

text \<open>The callback of \<open>config.selectedColumns.map\<close>: one entry of the select list.\<close>

definition renderColumn :: "SelectedColumn \<Rightarrow> string" where
  "renderColumn col =
     (let columnExpr0 = tableName col @ ''.'' @ columnName col;
          columnExpr1 = (if truthy (function_name col)
                         then applyFunction (the (function_name col)) col columnExpr0
                         else columnExpr0)
      in if truthy (alias_name col)
         then columnExpr1 @ '' AS '' @ the (alias_name col)
         else columnExpr1)"

definition selectClause :: "QueryConfig \<Rightarrow> string" where
  "selectClause config =
     (let selectClause0 = ''SELECT'';
          selectClause1 = (if distinct_flag config then selectClause0 @ '' DISTINCT''
                           else selectClause0)
      in if length (selectedColumns config) = 0 then selectClause1 @ '' *''
         else selectClause1 @ ''\<newline>  '' @
              join_str '',\<newline>  '' (map renderColumn (selectedColumns config)))"

text \<open>
  The FROM block: the anchor table, then the loop \<open>for (i = 1; i < length; i++)\<close> that
  pushes one \<open>CROSS JOIN\<close> for each further table when no join is defined.
\<close>

definition fromParts :: "QueryConfig \<Rightarrow> string list" where
  "fromParts config =
     (if length (selectedTables config) > 0 then
        [''FROM '' @ selectedTables config ! 0] @
        (if length (selectedTables config) > 1 \<and> length (joins config) = 0
         then map (\<lambda>i. ''CROSS JOIN '' @ selectedTables config ! i)
                  [1 ..< length (selectedTables config)]
         else [])
      else [])"

text \<open>The callback of \<open>config.joins.forEach\<close>.\<close>

definition additionalConditionText :: "QueryJoin \<Rightarrow> AdditionalCondition \<Rightarrow> string" where
  "additionalConditionText join condition =
     '' AND '' @ leftTable join @ ''.'' @ ac_leftColumn condition @ '' = '' @
     rightTable join @ ''.'' @ ac_rightColumn condition"

definition joinClause :: "QueryJoin \<Rightarrow> string" where
  "joinClause join =
     (let joinClause0 = join_type_text (jtype join) @ '' JOIN '' @ rightTable join @ '' ON '' @
            leftTable join @ ''.'' @ leftColumn join @ '' = '' @
            rightTable join @ ''.'' @ rightColumn join
      in case additionalConditions join of
           None \<Rightarrow> joinClause0
         | Some acs \<Rightarrow>
             if length acs > 0
             then joinClause0 @ join_str [] (map (additionalConditionText join) acs)
             else joinClause0)"

definition joinParts :: "QueryConfig \<Rightarrow> string list" where
  "joinParts config = map joinClause (joins config)"

text \<open>The value of one condition, after the operator-dependent formatting.\<close>

definition formatValue :: "QueryCondition \<Rightarrow> string" where
  "formatValue condition =
     (let v = cond_value condition in
      if operator condition = ''IN'' \<or> operator condition = ''NOT IN'' then
        (if \<not> startsWith v ''('' then ''('' @ v @ '')'' else v)
      else if operator condition = ''LIKE'' \<or> operator condition = ''ILIKE'' then
        (if \<not> startsWith v [CHR 0x27] then [CHR 0x27] @ v @ [CHR 0x27] else v)
      else if operator condition = ''IS NULL'' \<or> operator condition = ''IS NOT NULL'' then
        []
      else if Number_isNaN v \<and> \<not> startsWith v [CHR 0x27] then
        [CHR 0x27] @ v @ [CHR 0x27]
      else v)"

text \<open>The callback of \<open>config.conditions.map((condition, index) => ...)\<close>.\<close>

definition conditionStr :: "nat \<Rightarrow> QueryCondition \<Rightarrow> string" where
  "conditionStr index condition =
     (let conditionStr0 =
            (case logicalOperator condition of
               None \<Rightarrow> []
             | Some lop \<Rightarrow> if index > 0 then logical_operator_text lop @ '' '' else []);
          v = formatValue condition;
          conditionStr1 = conditionStr0 @ column condition @ '' '' @ operator condition
      in if v \<noteq> [] then conditionStr1 @ '' '' @ v else conditionStr1)"

definition whereParts :: "QueryConfig \<Rightarrow> string list" where
  "whereParts config =
     (if length (conditions config) > 0 then
        [''WHERE '' @
         join_str '' '' (map (\<lambda>(index, condition). conditionStr index condition)
                             (enumerate 0 (conditions config)))]
      else [])"

definition groupByParts :: "QueryConfig \<Rightarrow> string list" where
  "groupByParts config =
     (if length (groupBy config) > 0 then [''GROUP BY '' @ join_str '', '' (groupBy config)]
      else [])"

definition orderByParts :: "QueryConfig \<Rightarrow> string list" where
  "orderByParts config =
     (if length (orderBy config) > 0 then
        (let orderList =
               map (\<lambda>order. ord_column order @ '' '' @ direction_text (ord_direction order))
                   (filter (\<lambda>order. ord_column order \<noteq> [] \<and> trim (ord_column order) \<noteq> [])
                           (orderBy config))
         in if length orderList > 0 then [''ORDER BY '' @ join_str '', '' orderList] else [])
      else [])"

definition limitParts :: "QueryConfig \<Rightarrow> string list" where
  "limitParts config =
     (case limit config of
        None \<Rightarrow> []
      | Some n \<Rightarrow> if n \<noteq> 0 \<and> n > 0 then [''LIMIT '' @ numberToString n] else [])"

text \<open>The array \<open>parts\<close> when \<open>generateSQL\<close> returns, and the returned text.\<close>

definition generateSQL_parts :: "QueryConfig \<Rightarrow> string list" where
  "generateSQL_parts config =
     [selectClause config] @ fromParts config @ joinParts config @ whereParts config @
     groupByParts config @ orderByParts config @ limitParts config"

definition generateSQL :: "QueryConfig \<Rightarrow> string" where
  "generateSQL config = join_str ''\<newline>'' (generateSQL_parts config)"



section \<open>The configuration handlers: \<open>handleTablesAdd\<close> and \<open>handleColumnsAdd\<close>\<close>

text \<open>
  \<open>Array.from(new Set(xs))\<close>: a \<open>Set\<close> keeps its elements in insertion order and
  ignores an element it already holds.
\<close>

definition set_add :: "'a list \<Rightarrow> 'a \<Rightarrow> 'a list" where
  "set_add s x = (if x \<in> set s then s else s @ [x])"

definition array_from_new_Set :: "'a list \<Rightarrow> 'a list" where
  "array_from_new_Set xs = foldl set_add [] xs"

text \<open>The updater that \<open>handleTablesAdd(tableNames)\<close> passes to \<open>setQueryConfig\<close>.\<close>

definition handleTablesAdd :: "string list \<Rightarrow> QueryConfig \<Rightarrow> QueryConfig" where
  "handleTablesAdd tableNames prev =
     (let combinedTables = selectedTables prev @ tableNames;
          uniqueTables = array_from_new_Set combinedTables
      in prev \<lparr> selectedTables := uniqueTables \<rparr>)"

text \<open>An element of the argument of \<open>handleColumnsAdd\<close>.\<close>

record ColumnItem =
  item_tableName :: string
  item_columnName :: string

text \<open>The two \<open>columns.forEach\<close> loops of \<open>handleColumnsAdd\<close>, one step each.\<close>

definition addTableOf :: "string list \<Rightarrow> ColumnItem \<Rightarrow> string list" where
  "addTableOf newTables col =
     (if item_tableName col \<notin> set newTables
      then newTables @ [item_tableName col] else newTables)"

definition addColumnOf :: "SelectedColumn list \<Rightarrow> ColumnItem \<Rightarrow> SelectedColumn list" where
  "addColumnOf newColumns col =
     (let ident = item_tableName col @ ''.'' @ item_columnName col in
      if find (\<lambda>c. col_id c = ident) newColumns = None
      then newColumns @
           [\<lparr> col_id = ident, tableName = item_tableName col,
              columnName = item_columnName col, alias_name = None, function_name = None,
              functionParams = None \<rparr>]
      else newColumns)"

definition handleColumnsAdd :: "ColumnItem list \<Rightarrow> QueryConfig \<Rightarrow> QueryConfig" where
  "handleColumnsAdd columns prev =
     (let newTables = foldl addTableOf (selectedTables prev) columns;
          newColumns = foldl addColumnOf (selectedColumns prev) columns
      in prev \<lparr> selectedTables := newTables, selectedColumns := newColumns \<rparr>)"



section \<open>Whole-word matching, the keyword screen as the specification words it\<close>

text \<open>
  The specification asks for word-boundary matching of the denylist: a keyword counts only
  where it is not preceded and not followed by a word character (a letter, a digit or the
  underscore), as the regular expression \<open>\bkeyword\b\<close> matches.
  \<open>spec_wordBoundaryScreen\<close> follows these words; it is compared with the screen of
  \<open>validateSQL\<close>, which is translated from the source.
\<close>

definition isWordChar :: "char \<Rightarrow> bool" where
  "isWordChar c \<longleftrightarrow>
     c \<in> set ''abcdefghijklmnopqrstuvwxyzABCDEFGHIJKLMNOPQRSTUVWXYZ0123456789_''"

definition boundaryAt :: "string \<Rightarrow> bool" where
  "boundaryAt rest = (case rest of [] \<Rightarrow> True | c # _ \<Rightarrow> \<not> isWordChar c)"

fun occursAsWordFrom :: "bool \<Rightarrow> string \<Rightarrow> string \<Rightarrow> bool" where
  "occursAsWordFrom b [] k = False"
| "occursAsWordFrom b (c # cs) k =
     (b \<and> startsWith (c # cs) k \<and> boundaryAt (drop (length k) (c # cs)) \<or>
      occursAsWordFrom (\<not> isWordChar c) cs k)"

definition spec_wordBoundaryScreen :: "string \<Rightarrow> bool" where
  "spec_wordBoundaryScreen n = list_ex (occursAsWordFrom True n) dangerousKeywords"


section \<open>The clause kinds of a rendered query\<close>

text \<open>
  The specification names seven clauses. A pushed part is read as the clause whose keyword
  it begins with; the JOIN keywords are those of the four join types and of the implicit
  \<open>CROSS JOIN\<close>.
\<close>

datatype clause = Select | From | Join | Where | GroupBy | OrderBy | Limit | Unknown

definition clause_of :: "string \<Rightarrow> clause" where
  "clause_of part =
     (if prefix ''SELECT'' part then Select
      else if prefix ''FROM '' part then From
      else if prefix ''INNER JOIN '' part \<or> prefix ''LEFT JOIN '' part \<or>
              prefix ''RIGHT JOIN '' part \<or> prefix ''OUTER JOIN '' part \<or>
              prefix ''CROSS JOIN '' part then Join
      else if prefix ''WHERE '' part then Where
      else if prefix ''GROUP BY '' part then GroupBy
      else if prefix ''ORDER BY '' part then OrderBy
      else if prefix ''LIMIT '' part then Limit
      else Unknown)"

text \<open>The key that \<open>handleColumnsAdd\<close> derives for a column: \<open>table.column\<close>.\<close>

definition item_id :: "ColumnItem \<Rightarrow> string" where
  "item_id col = item_tableName col @ ''.'' @ item_columnName col"

text \<open>A text with its white space and line breaks removed.\<close>

definition stripWhiteSpace :: "string \<Rightarrow> string" where
  "stripWhiteSpace s = filter (\<lambda>c. \<not> isWhiteSpace c) s"


section \<open>Concrete configurations\<close>

text \<open>The initial state of the query builder (\<open>useState<QueryConfig>\<close>).\<close>

definition initialQueryConfig :: QueryConfig where
  "initialQueryConfig =
     \<lparr> selectedTables = [], selectedColumns = [], conditions = [], joins = [], groupBy = [],
       orderBy = [], limit = None, distinct_flag = False, config_logicalOperator = Some AND \<rparr>"

text \<open>A column as \<open>handleColumnsAdd\<close> creates it: no alias, no function.\<close>

definition plainColumn :: "string \<Rightarrow> string \<Rightarrow> SelectedColumn" where
  "plainColumn t c =
     \<lparr> col_id = t @ ''.'' @ c, tableName = t, columnName = c, alias_name = None,
       function_name = None, functionParams = None \<rparr>"

text \<open>
  The end-to-end scenario of the specification, and the text the specification expects
  for it.
\<close>

definition scenario_config :: QueryConfig where
  "scenario_config = initialQueryConfig
     \<lparr> selectedTables := [''public.users''],
       selectedColumns := [plainColumn ''users'' ''id'', plainColumn ''users'' ''email''],
       conditions := [\<lparr> cond_id = ''1'', column = ''public.users.status'', operator = ''='',
                        cond_value = ''active'', logicalOperator = None \<rparr>] \<rparr>"

definition spec_scenario_text :: string where
  "spec_scenario_text =
     ''SELECT\<newline>  users.id,\<newline>  users.email\<newline>FROM public.users\<newline>WHERE status = 'active'' @
     [CHR 0x27]"

text \<open>A \<open>NOT LIKE\<close> condition whose pattern reads as a number.\<close>

definition notLikeCondition :: QueryCondition where
  "notLikeCondition =
     \<lparr> cond_id = ''1'', column = ''users.zip'', operator = ''NOT LIKE'', cond_value = ''90210'',
       logicalOperator = None \<rparr>"

text \<open>Two tables and no join.\<close>

definition two_tables_config :: QueryConfig where
  "two_tables_config =
     initialQueryConfig \<lparr> selectedTables := [''public.users'', ''public.orders''] \<rparr>"

text \<open>A configuration with every clause populated.\<close>

definition full_config :: QueryConfig where
  "full_config =
     \<lparr> selectedTables = [''orders'', ''users''],
       selectedColumns =
         [plainColumn ''users'' ''region'',
          (plainColumn ''orders'' ''total'')
            \<lparr> alias_name := Some ''revenue'', function_name := Some ''SUM'' \<rparr>],
       conditions =
         [\<lparr> cond_id = ''1'', column = ''orders.status'', operator = ''='',
             cond_value = ''paid'', logicalOperator = None \<rparr>,
          \<lparr> cond_id = ''2'', column = ''orders.total'', operator = ''>'',
             cond_value = ''100'', logicalOperator = Some AND \<rparr>],
       joins =
         [\<lparr> join_id = ''1'', jtype = INNER, leftTable = ''orders'', leftColumn = ''user_id'',
             rightTable = ''users'', rightColumn = ''id'',
             additionalConditions =
               Some [\<lparr> ac_id = ''1'', ac_leftColumn = ''region'',
                       ac_rightColumn = ''region'' \<rparr>] \<rparr>],
       groupBy = [''users.region''],
       orderBy = [\<lparr> ord_column = ''revenue'', ord_direction = DESC \<rparr>],
       limit = Some 10, distinct_flag = False, config_logicalOperator = Some AND \<rparr>"

text \<open>
  No table selected and one column rendered through \<open>EXTRACT\<close>: the state after the
  only table of a query was removed, which leaves its columns in place.
\<close>

definition extract_config :: QueryConfig where
  "extract_config = initialQueryConfig
     \<lparr> selectedColumns :=
         [(plainColumn ''orders'' ''placed'') \<lparr> function_name := Some ''EXTRACT'' \<rparr>] \<rparr>"

text \<open>
  Configurations for the add handlers: a column whose table was removed, a table list
  with a repeated name, and a table with one of its columns.
\<close>

definition users_id_item :: ColumnItem where
  "users_id_item = \<lparr> item_tableName = ''users'', item_columnName = ''id'' \<rparr>"

definition orphan_column_config :: QueryConfig where
  "orphan_column_config =
     initialQueryConfig \<lparr> selectedColumns := [plainColumn ''users'' ''id''] \<rparr>"

definition duplicate_tables_config :: QueryConfig where
  "duplicate_tables_config =
     initialQueryConfig \<lparr> selectedTables := [''users'', ''users''] \<rparr>"

definition users_config :: QueryConfig where
  "users_config = initialQueryConfig
     \<lparr> selectedTables := [''users''], selectedColumns := [plainColumn ''users'' ''id''] \<rparr>"


section \<open>The string primitives against the list library\<close>

lemma startsWith_prefix: "startsWith s p \<longleftrightarrow> prefix p s"
  by (induction s p rule: startsWith.induct) auto

lemma includes_str_sublist: "includes_str s k \<longleftrightarrow> sublist k s"
  by (induction s) (auto simp: startsWith_prefix sublist_Cons_right)

lemma matchCount_count_list: "matchCount c s = count_list s c"
  by (induction s) (auto simp: matchCount_def)

lemma hasDangerousKeywords_sublist:
  "list_ex (\<lambda>keyword. includes_str n keyword) dangerousKeywords \<longleftrightarrow>
   (\<exists>k\<in>set dangerousKeywords. sublist k n)"
  by (simp add: list_ex_iff includes_str_sublist)


section \<open>The caller-side gate of the execute and export routes\<close>

lemma export_route_rejects_non_select:
  assumes "\<not> startsWith (toLowerCase (trim sql)) ''select''"
  shows "\<exists>status message. export_route sql = Responded status message"
  using assms by (simp add: export_route_def executeQuerySchema_parse_def)

lemma execute_route_gate:
  "execute_route sql = PassedToExecutor t \<longleftrightarrow>
     sql \<noteq> [] \<and> t = sql \<and>
     \<not> (\<exists>k\<in>set [''drop'', ''delete'', ''update'', ''insert'', ''alter'', ''create''].
          prefix k (toLowerCase (trim sql)))"
  by (cases sql)
     (auto simp: execute_route_def executeQuerySchema_parse_def Let_def startsWith_prefix)

lemma export_route_passes_only_select:
  "export_route sql = PassedToExecutor t \<Longrightarrow>
     t = sql \<and> prefix ''select'' (toLowerCase (trim sql))"
  by (auto simp: export_route_def executeQuerySchema_parse_def Let_def startsWith_prefix
           split: if_splits)

text \<open>
  Claim C1, at the text \<open>TRUNCATE TABLE users\<close>. Its trimmed, lower-cased form does not
  begin with \<open>select\<close>, the export route answers 400, and the execute route hands it to
  the executor: the gate of the execute route tests six leading keywords (drop, delete,
  update, insert, alter, create) and lets every other leading token through.
\<close>

theorem execute_route_passes_truncate:
  "\<not> startsWith (toLowerCase (trim ''TRUNCATE TABLE users'')) ''select'' \<and>
   export_route ''TRUNCATE TABLE users'' =
     Responded 400 ''Only SELECT queries are allowed for export'' \<and>
   execute_route ''TRUNCATE TABLE users'' = PassedToExecutor ''TRUNCATE TABLE users''"
  by code_simp



section \<open>The validator\<close>

text \<open>
  Claim C2, as stated, at the text \<open>SELECT created_at FROM users\<close>: no denylist word
  occurs in it as a whole word (\<open>create\<close> occurs only inside the identifier
  \<open>created_at\<close>), and \<open>validateSQL\<close> records the restricted-keyword error all the same.
\<close>

theorem validateSQL_created_at_counterexample:
  "\<not> spec_wordBoundaryScreen (toLowerCase (trim ''SELECT created_at FROM users'')) \<and>
   ''Query contains restricted keywords'' \<in>
     set (errors (validateSQL ''SELECT created_at FROM users''))"
  by code_simp

text \<open>
  Claim C2, amended: the forbidden-keyword screen of \<open>validateSQL\<close> is substring
  containment. The restricted-keyword error is recorded exactly when one of the seven
  denylist words occurs somewhere in the trimmed, lower-cased text as a contiguous
  substring, whether as a whole word or embedded in a longer identifier.
\<close>

theorem validateSQL_keyword_screen_substring:
  "''Query contains restricted keywords'' \<in> set (errors (validateSQL sql)) \<longleftrightarrow>
   (\<exists>k\<in>set dangerousKeywords. sublist k (toLowerCase (trim sql)))"
  by (simp add: validateSQL_def Let_def hasDangerousKeywords_sublist)

theorem validateSQL_keyword_screen_substring_witness:
  "sublist ''create'' (toLowerCase (trim ''SELECT created_at FROM users'')) \<and>
   ''Query contains restricted keywords'' \<in>
     set (errors (validateSQL ''SELECT created_at FROM users''))"
proof -
  have "includes_str (toLowerCase (trim ''SELECT created_at FROM users'')) ''create''"
    by code_simp
  then have sub: "sublist ''create'' (toLowerCase (trim ''SELECT created_at FROM users''))"
    by (simp only: includes_str_sublist)
  have "''create'' \<in> set dangerousKeywords"
    by (simp add: dangerousKeywords_def)
  with sub validateSQL_keyword_screen_substring [of "''SELECT created_at FROM users''"]
  show ?thesis by blast
qed

text \<open>
  Claim C7: \<open>validateSQL\<close> evaluates the four rules one after the other without
  stopping at a failure. The returned error list holds, in rule order, one message for each
  rule that fails and nothing else: the text does not begin with \<open>select\<close>, it does not
  contain \<open>from\<close>, the numbers of opening and closing parentheses differ, a denylist
  word occurs in it. \<open>isValid\<close> is true exactly when that list is empty.
\<close>

theorem validateSQL_accumulates:
  "errors (validateSQL sql) =
     (if prefix ''select'' (toLowerCase (trim sql)) then []
      else [''Query must start with SELECT'']) @
     (if sublist ''from'' (toLowerCase (trim sql)) then []
      else [''Query must include FROM clause'']) @
     (if count_list sql (CHR ''('') = count_list sql (CHR '')'') then []
      else [''Unbalanced parentheses in query'']) @
     (if \<exists>k\<in>set dangerousKeywords. sublist k (toLowerCase (trim sql))
      then [''Query contains restricted keywords''] else [])
   \<and> (isValid (validateSQL sql) \<longleftrightarrow> errors (validateSQL sql) = [])"
  by (simp add: validateSQL_def Let_def list_ex_iff startsWith_prefix
        includes_str_sublist matchCount_count_list)

theorem validateSQL_accumulates_witness:
  "\<not> prefix ''select'' (toLowerCase (trim ''DELETE FROM users WHERE (a=1'')) \<and>
   sublist ''from'' (toLowerCase (trim ''DELETE FROM users WHERE (a=1'')) \<and>
   count_list ''DELETE FROM users WHERE (a=1'' (CHR ''('') \<noteq>
     count_list ''DELETE FROM users WHERE (a=1'' (CHR '')'') \<and>
   sublist ''delete'' (toLowerCase (trim ''DELETE FROM users WHERE (a=1'')) \<and>
   errors (validateSQL ''DELETE FROM users WHERE (a=1'') =
     [''Query must start with SELECT'', ''Unbalanced parentheses in query'',
      ''Query contains restricted keywords''] \<and>
   \<not> isValid (validateSQL ''DELETE FROM users WHERE (a=1'')"
proof -
  let ?q = "''DELETE FROM users WHERE (a=1''"
  have a: "\<not> startsWith (toLowerCase (trim ?q)) ''select''" by code_simp
  have b: "includes_str (toLowerCase (trim ?q)) ''from''" by code_simp
  have c: "matchCount (CHR ''('') ?q \<noteq> matchCount (CHR '')'') ?q" by code_simp
  have d: "includes_str (toLowerCase (trim ?q)) ''delete''" by code_simp
  have k: "''delete'' \<in> set dangerousKeywords" by (simp add: dangerousKeywords_def)
  note a' = a [unfolded startsWith_prefix]
  note b' = b [unfolded includes_str_sublist]
  note c' = c [unfolded matchCount_count_list]
  note d' = d [unfolded includes_str_sublist]
  from k d' have e: "\<exists>k\<in>set dangerousKeywords. sublist k (toLowerCase (trim ?q))" by blast
  from validateSQL_accumulates [of ?q] a' b' c' e
  have "errors (validateSQL ?q) =
     [''Query must start with SELECT'', ''Unbalanced parentheses in query'',
      ''Query contains restricted keywords''] \<and> \<not> isValid (validateSQL ?q)"
    by (simp del: set_simps)
  with a' b' c' d' show ?thesis by blast
qed



section \<open>The generator: the end-to-end scenario\<close>

text \<open>
  Claim C3, as stated, at the scenario configuration: the rendered text differs from the
  text of the specification even with all white space and line breaks removed, and its
  last clause is not \<open>WHERE status = 'active'\<close>.
\<close>

theorem generateSQL_scenario_counterexample:
  "stripWhiteSpace (generateSQL scenario_config) \<noteq> stripWhiteSpace spec_scenario_text \<and>
   last (generateSQL_parts scenario_config) \<noteq>
     ''WHERE status = '' @ [CHR 0x27] @ ''active'' @ [CHR 0x27]"
  by code_simp

text \<open>
  Claim C3, amended: for the scenario configuration \<open>generateSQL\<close> produces three
  clauses, in this order: the SELECT clause listing \<open>users.id\<close> then \<open>users.email\<close>,
  \<open>FROM public.users\<close>, and a WHERE clause whose content is
  \<open>public.users.status = 'active'\<close>: the column path of the condition is rendered as
  it is given.
\<close>

theorem generateSQL_scenario:
  "generateSQL_parts scenario_config =
     [''SELECT\<newline>  users.id,\<newline>  users.email'', ''FROM public.users'',
      ''WHERE public.users.status = '' @ [CHR 0x27] @ ''active'' @ [CHR 0x27]] \<and>
   generateSQL scenario_config =
     ''SELECT\<newline>  users.id,\<newline>  users.email\<newline>FROM public.users\<newline>WHERE public.users.status = '' @
     [CHR 0x27] @ ''active'' @ [CHR 0x27]"
  by code_simp


section \<open>The generator: the value of a condition\<close>

lemma formatValue_membership:
  "operator cd = ''IN'' \<or> operator cd = ''NOT IN'' \<Longrightarrow>
   formatValue cd =
     (if prefix ''('' (cond_value cd) then cond_value cd else ''('' @ cond_value cd @ '')'')"
  by (auto simp: formatValue_def Let_def startsWith_prefix)

lemma formatValue_pattern:
  "operator cd = ''LIKE'' \<or> operator cd = ''ILIKE'' \<Longrightarrow>
   formatValue cd =
     (if prefix [CHR 0x27] (cond_value cd) then cond_value cd
      else [CHR 0x27] @ cond_value cd @ [CHR 0x27])"
  by (auto simp: formatValue_def Let_def startsWith_prefix)

lemma formatValue_nullability:
  "operator cd = ''IS NULL'' \<or> operator cd = ''IS NOT NULL'' \<Longrightarrow> formatValue cd = []"
  by (auto simp: formatValue_def Let_def)

lemma formatValue_other:
  "operator cd \<notin> {''IN'', ''NOT IN'', ''LIKE'', ''ILIKE'', ''IS NULL'', ''IS NOT NULL''} \<Longrightarrow>
   formatValue cd =
     (if isStringNumericLiteral (cond_value cd) \<or> prefix [CHR 0x27] (cond_value cd)
      then cond_value cd else [CHR 0x27] @ cond_value cd @ [CHR 0x27])"
  by (auto simp: formatValue_def Let_def startsWith_prefix Number_isNaN_def)

text \<open>
  Claim C4, at the condition \<open>users.zip NOT LIKE 90210\<close>: the pattern is rendered
  without quotes, where the same value under \<open>LIKE\<close> is quoted. The pattern branch of
  \<open>generateSQL\<close> tests the operators \<open>LIKE\<close> and \<open>ILIKE\<close> only, so
  \<open>NOT LIKE\<close> and \<open>NOT ILIKE\<close> fall to the last branch, which leaves a value that
  parses as a number unquoted.
\<close>

theorem formatValue_not_like_numeric:
  "formatValue notLikeCondition = ''90210'' \<and>
   formatValue (notLikeCondition \<lparr> operator := ''LIKE'' \<rparr>) =
     [CHR 0x27] @ ''90210'' @ [CHR 0x27] \<and>
   generateSQL (initialQueryConfig
       \<lparr> selectedTables := [''users''], conditions := [notLikeCondition] \<rparr>) =
     ''SELECT *\<newline>FROM users\<newline>WHERE users.zip NOT LIKE 90210''"
  by code_simp


section \<open>The generator: the clauses and their order\<close>

lemma join_str_Cons: "join_str sep (x # xs) = x @ concat (map (\<lambda>p. sep @ p) xs)"
  by (induction xs arbitrary: x) auto

lemma crossJoin_tables:
  "map (\<lambda>i. f (ts ! i)) [1 ..< length ts] = map f (tl ts)"
proof (cases ts)
  case Nil
  then show ?thesis by simp
next
  case (Cons t ts')
  have "map (\<lambda>i. f ((t # ts') ! i)) [Suc 0 ..< Suc (length ts')] =
        map (\<lambda>i. f (ts' ! i)) [0 ..< length ts']"
    by (simp add: map_Suc_upt [symmetric] del: upt_Suc)
  also have "\<dots> = map f (map (nth ts') [0 ..< length ts'])"
    by simp
  also have "\<dots> = map f ts'"
    by (simp only: map_nth)
  finally show ?thesis using Cons by simp
qed

lemma fromParts_eq:
  "fromParts c =
     (case selectedTables c of
        [] \<Rightarrow> []
      | t # ts \<Rightarrow> (''FROM '' @ t) #
                  (if joins c = [] then map (\<lambda>u. ''CROSS JOIN '' @ u) ts else []))"
proof (cases "selectedTables c")
  case Nil
  then show ?thesis by (simp add: fromParts_def)
next
  case (Cons t ts)
  have "map (\<lambda>i. ''CROSS JOIN '' @ selectedTables c ! i) [1 ..< length (selectedTables c)] =
        map (\<lambda>u. ''CROSS JOIN '' @ u) (tl (selectedTables c))"
    by (rule crossJoin_tables)
  with Cons show ?thesis by (auto simp: fromParts_def)
qed

lemma clause_of_selectClause: "clause_of (selectClause c) = Select"
  by (simp add: clause_of_def selectClause_def Let_def)

lemma clause_of_joinClause: "clause_of (joinClause j) = Join"
  by (cases "jtype j") (simp_all add: clause_of_def joinClause_def Let_def split: option.split)

lemma clauses_fromParts:
  "map clause_of (fromParts c) =
     (if selectedTables c = [] then [] else [From]) @
     replicate (if joins c = [] then length (selectedTables c) - 1 else 0) Join"
  by (simp add: fromParts_eq clause_of_def map_replicate_const o_def split: list.split)

lemma clauses_joinParts: "map clause_of (joinParts c) = replicate (length (joins c)) Join"
  by (simp add: joinParts_def clause_of_joinClause map_replicate_const o_def)

lemma clauses_whereParts:
  "map clause_of (whereParts c) = (if conditions c = [] then [] else [Where])"
  by (simp add: whereParts_def clause_of_def)

lemma clauses_groupByParts:
  "map clause_of (groupByParts c) = (if groupBy c = [] then [] else [GroupBy])"
  by (simp add: groupByParts_def clause_of_def)

lemma clauses_orderByParts:
  "map clause_of (orderByParts c) =
     (if filter (\<lambda>order. ord_column order \<noteq> [] \<and> trim (ord_column order) \<noteq> [])
           (orderBy c) = []
      then [] else [OrderBy])"
  by (auto simp: orderByParts_def Let_def clause_of_def)

lemma clauses_limitParts:
  "map clause_of (limitParts c) =
     (case limit c of None \<Rightarrow> [] | Some n \<Rightarrow> if 0 < n then [Limit] else [])"
  by (simp add: limitParts_def clause_of_def split: option.split)

lemma clauses_generateSQL_parts:
  "map clause_of (generateSQL_parts c) =
     [Select] @
     (if selectedTables c = [] then [] else [From]) @
     replicate (if joins c = [] then length (selectedTables c) - 1 else 0) Join @
     replicate (length (joins c)) Join @
     (if conditions c = [] then [] else [Where]) @
     (if groupBy c = [] then [] else [GroupBy]) @
     (if filter (\<lambda>order. ord_column order \<noteq> [] \<and> trim (ord_column order) \<noteq> [])
           (orderBy c) = []
      then [] else [OrderBy]) @
     (case limit c of None \<Rightarrow> [] | Some n \<Rightarrow> if 0 < n then [Limit] else [])"
  unfolding generateSQL_parts_def map_append
    clauses_fromParts clauses_joinParts clauses_whereParts clauses_groupByParts
    clauses_orderByParts clauses_limitParts
  by (simp add: clause_of_selectClause)


text \<open>
  Claim C5: with more than one selected table and no join, the text returned by
  \<open>generateSQL\<close> is the SELECT clause, \<open>FROM\<close> the first table, then one
  \<open>CROSS JOIN\<close> line for each further table in selection order, then the remaining
  clauses. The parts that begin with \<open>CROSS JOIN\<close> are exactly these, one for each
  table after the first; with two tables there is exactly one, naming the second.
\<close>

theorem cross_join_fallback:
  assumes "1 < length (selectedTables c)" and "joins c = []"
  shows "generateSQL c =
           selectClause c @ ''\<newline>FROM '' @ hd (selectedTables c) @
           concat (map (\<lambda>t. ''\<newline>CROSS JOIN '' @ t) (tl (selectedTables c))) @
           concat (map (\<lambda>p. ''\<newline>'' @ p)
             (whereParts c @ groupByParts c @ orderByParts c @ limitParts c)) \<and>
         filter (prefix ''CROSS JOIN '') (generateSQL_parts c) =
           map (\<lambda>t. ''CROSS JOIN '' @ t) (tl (selectedTables c)) \<and>
         length (filter (prefix ''CROSS JOIN '') (generateSQL_parts c)) =
           length (selectedTables c) - 1"
proof -
  from assms obtain t ts where ts: "selectedTables c = t # ts"
    by (cases "selectedTables c") auto
  have fp: "fromParts c = (''FROM '' @ t) # map (\<lambda>u. ''CROSS JOIN '' @ u) ts"
    using ts assms by (simp add: fromParts_eq)
  have jp: "joinParts c = []"
    using assms by (simp add: joinParts_def)
  have parts: "generateSQL_parts c =
      selectClause c # (''FROM '' @ t) # map (\<lambda>u. ''CROSS JOIN '' @ u) ts @
      (whereParts c @ groupByParts c @ orderByParts c @ limitParts c)"
    by (simp add: generateSQL_parts_def fp jp)
  have rendered: "generateSQL c =
           selectClause c @ ''\<newline>FROM '' @ t @
           concat (map (\<lambda>t. ''\<newline>CROSS JOIN '' @ t) ts) @
           concat (map (\<lambda>p. ''\<newline>'' @ p)
             (whereParts c @ groupByParts c @ orderByParts c @ limitParts c))"
  proof -
    have e: "(@) ''\<newline>'' = (#) (CHR ''\<newline>'')"
      by (rule ext) simp
    show ?thesis
      unfolding generateSQL_def parts join_str_Cons
      by (simp add: o_def e)
  qed
  have n1: "\<not> prefix ''CROSS JOIN '' (selectClause c)"
    by (simp add: selectClause_def Let_def)
  have n2: "filter (prefix ''CROSS JOIN '') (whereParts c) = []"
    by (simp add: whereParts_def)
  have n3: "filter (prefix ''CROSS JOIN '') (groupByParts c) = []"
    by (simp add: groupByParts_def)
  have n4: "filter (prefix ''CROSS JOIN '') (orderByParts c) = []"
    by (simp add: orderByParts_def Let_def)
  have n5: "filter (prefix ''CROSS JOIN '') (limitParts c) = []"
    by (simp add: limitParts_def split: option.split)
  have y: "filter (prefix ''CROSS JOIN '') (map (\<lambda>u. ''CROSS JOIN '' @ u) ts) =
           map (\<lambda>u. ''CROSS JOIN '' @ u) ts"
    by (induction ts) simp_all
  have flt: "filter (prefix ''CROSS JOIN '') (generateSQL_parts c) =
           map (\<lambda>u. ''CROSS JOIN '' @ u) ts"
    unfolding parts using n1 n2 n3 n4 n5 y by simp
  from rendered flt ts show ?thesis by simp
qed

theorem cross_join_fallback_witness:
  "1 < length (selectedTables two_tables_config) \<and> joins two_tables_config = [] \<and>
   filter (prefix ''CROSS JOIN '') (generateSQL_parts two_tables_config) =
     [''CROSS JOIN public.orders''] \<and>
   generateSQL two_tables_config =
     ''SELECT *\<newline>FROM public.users\<newline>CROSS JOIN public.orders''"
proof -
  have a: "1 < length (selectedTables two_tables_config)"
    by (simp add: two_tables_config_def initialQueryConfig_def)
  have b: "joins two_tables_config = []"
    by (simp add: two_tables_config_def initialQueryConfig_def)
  have c: "tl (selectedTables two_tables_config) = [''public.orders'']"
    by (simp add: two_tables_config_def initialQueryConfig_def)
  have d: "generateSQL two_tables_config =
     ''SELECT *\<newline>FROM public.users\<newline>CROSS JOIN public.orders''"
    by code_simp
  from cross_join_fallback [OF a b] c
  have "filter (prefix ''CROSS JOIN '') (generateSQL_parts two_tables_config) =
     [''CROSS JOIN public.orders'']"
    by simp
  with a b d show ?thesis by simp
qed

text \<open>
  Claim C6: the text returned by \<open>generateSQL\<close> is its clauses joined by newlines, and
  the clauses are, in this order: the SELECT clause (always), the FROM clause unless no
  table is selected, the JOIN clauses (one implicit \<open>CROSS JOIN\<close> for each further table
  when no join is defined, then one for each join), the WHERE clause unless there is no
  condition, the GROUP BY clause unless \<open>groupBy\<close> is empty, the ORDER BY clause unless no
  entry of \<open>orderBy\<close> has a column, and the LIMIT clause when \<open>limit\<close> is a positive
  number. A clause whose inputs are empty is absent.
\<close>

theorem generateSQL_clause_order:
  "generateSQL c = join_str ''\<newline>'' (generateSQL_parts c) \<and>
   map clause_of (generateSQL_parts c) =
     [Select] @
     (if selectedTables c = [] then [] else [From]) @
     replicate (if joins c = [] then length (selectedTables c) - 1 else 0) Join @
     replicate (length (joins c)) Join @
     (if conditions c = [] then [] else [Where]) @
     (if groupBy c = [] then [] else [GroupBy]) @
     (if filter (\<lambda>order. ord_column order \<noteq> [] \<and> trim (ord_column order) \<noteq> [])
           (orderBy c) = []
      then [] else [OrderBy]) @
     (case limit c of None \<Rightarrow> [] | Some n \<Rightarrow> if 0 < n then [Limit] else [])"
  using clauses_generateSQL_parts [of c] by (simp add: generateSQL_def)

theorem generateSQL_clause_order_witness:
  "map clause_of (generateSQL_parts full_config) =
     [Select, From, Join, Where, GroupBy, OrderBy, Limit] \<and>
   generateSQL_parts full_config =
     [''SELECT\<newline>  users.region,\<newline>  SUM(orders.total) AS revenue'',
      ''FROM orders'',
      ''INNER JOIN users ON orders.user_id = users.id AND orders.region = users.region'',
      ''WHERE orders.status = 'paid' AND orders.total > 100'',
      ''GROUP BY users.region'',
      ''ORDER BY revenue DESC'',
      ''LIMIT 10'']"
proof -
  have parts: "generateSQL_parts full_config =
     [''SELECT\<newline>  users.region,\<newline>  SUM(orders.total) AS revenue'',
      ''FROM orders'',
      ''INNER JOIN users ON orders.user_id = users.id AND orders.region = users.region'',
      ''WHERE orders.status = 'paid' AND orders.total > 100'',
      ''GROUP BY users.region'',
      ''ORDER BY revenue DESC'',
      ''LIMIT 10'']"
    by code_simp
  have flt: "filter (\<lambda>order. ord_column order \<noteq> [] \<and> trim (ord_column order) \<noteq> [])
               (orderBy full_config) \<noteq> []"
    by code_simp
  have "map clause_of (generateSQL_parts full_config) =
     [Select, From, Join, Where, GroupBy, OrderBy, Limit]"
    using generateSQL_clause_order [of full_config] flt
    by (simp add: full_config_def)
  with parts show ?thesis by simp
qed





section \<open>The configuration handlers\<close>

lemma foldl_set_add_present: "set ts \<subseteq> set acc \<Longrightarrow> foldl set_add acc ts = acc"
  by (induction ts arbitrary: acc) (auto simp: set_add_def)

lemma foldl_set_add_distinct: "distinct (acc @ xs) \<Longrightarrow> foldl set_add acc xs = acc @ xs"
  by (induction xs arbitrary: acc) (auto simp: set_add_def)

lemma set_foldl_set_add: "set (foldl set_add acc xs) = set acc \<union> set xs"
  by (induction xs arbitrary: acc) (auto simp: set_add_def)

lemma distinct_foldl_set_add: "distinct acc \<Longrightarrow> distinct (foldl set_add acc xs)"
  by (induction xs arbitrary: acc) (auto simp: set_add_def)

lemma array_from_new_Set_present:
  assumes "distinct xs" and "set ts \<subseteq> set xs"
  shows "array_from_new_Set (xs @ ts) = xs"
proof -
  have "foldl set_add [] xs = xs"
    using assms(1) foldl_set_add_distinct [of "[]" xs] by simp
  then show ?thesis
    using assms(2) by (simp add: array_from_new_Set_def foldl_set_add_present)
qed

lemma handleTablesAdd_present:
  "distinct (selectedTables c) \<Longrightarrow> set ts \<subseteq> set (selectedTables c) \<Longrightarrow>
   handleTablesAdd ts c = c"
  by (simp add: handleTablesAdd_def Let_def array_from_new_Set_present)

lemma handleTablesAdd_twice: "handleTablesAdd ts (handleTablesAdd ts c) = handleTablesAdd ts c"
proof -
  let ?u = "array_from_new_Set (selectedTables c @ ts)"
  have "distinct ?u"
    by (simp add: array_from_new_Set_def distinct_foldl_set_add)
  moreover have "set ts \<subseteq> set ?u"
    by (simp add: array_from_new_Set_def set_foldl_set_add)
  ultimately have "array_from_new_Set (?u @ ts) = ?u"
    by (rule array_from_new_Set_present)
  then show ?thesis
    by (simp add: handleTablesAdd_def Let_def)
qed

lemma foldl_addTableOf_present:
  "\<forall>col\<in>set cols. item_tableName col \<in> set ts \<Longrightarrow> foldl addTableOf ts cols = ts"
  by (induction cols arbitrary: ts) (auto simp: addTableOf_def)

lemma set_foldl_addTableOf:
  "set (foldl addTableOf ts cols) = set ts \<union> item_tableName ` set cols"
  by (induction cols arbitrary: ts) (auto simp: addTableOf_def)

lemma foldl_addColumnOf_present:
  "\<forall>col\<in>set cols. item_id col \<in> col_id ` set cs \<Longrightarrow> foldl addColumnOf cs cols = cs"
  by (induction cols arbitrary: cs)
     (auto simp: addColumnOf_def Let_def find_None_iff item_id_def)

lemma ids_foldl_addColumnOf:
  "col_id ` set (foldl addColumnOf cs cols) = col_id ` set cs \<union> item_id ` set cols"
proof (induction cols arbitrary: cs)
  case Nil
  then show ?case by simp
next
  case (Cons col cols)
  have "col_id ` set (addColumnOf cs col) = insert (item_id col) (col_id ` set cs)"
    by (force simp: addColumnOf_def Let_def find_None_iff item_id_def)
  with Cons show ?case by auto
qed

lemma handleColumnsAdd_present:
  assumes "\<forall>col\<in>set cols. item_tableName col \<in> set (selectedTables c)"
      and "\<forall>col\<in>set cols. item_id col \<in> col_id ` set (selectedColumns c)"
  shows "handleColumnsAdd cols c = c"
  using assms
  by (simp add: handleColumnsAdd_def Let_def foldl_addTableOf_present foldl_addColumnOf_present)

lemma handleColumnsAdd_twice:
  "handleColumnsAdd cols (handleColumnsAdd cols c) = handleColumnsAdd cols c"
proof (rule handleColumnsAdd_present)
  show "\<forall>col\<in>set cols. item_tableName col \<in> set (selectedTables (handleColumnsAdd cols c))"
    by (simp add: handleColumnsAdd_def Let_def set_foldl_addTableOf)
  show "\<forall>col\<in>set cols. item_id col \<in> col_id ` set (selectedColumns (handleColumnsAdd cols c))"
    by (simp add: handleColumnsAdd_def Let_def ids_foldl_addColumnOf)
qed

text \<open>
  Claim C8, as stated, at two configurations. The key \<open>users.id\<close> is present in the
  selected columns while the table \<open>users\<close> is not selected (its table was removed,
  which leaves the columns): adding the column again adds the table, so the result is not
  the original. And with a table name held twice, adding that name returns a list that
  holds it once.
\<close>

theorem add_present_counterexample:
  "item_id users_id_item \<in> set (map col_id (selectedColumns orphan_column_config)) \<and>
   handleColumnsAdd [users_id_item] orphan_column_config \<noteq> orphan_column_config \<and>
   ''users'' \<in> set (selectedTables duplicate_tables_config) \<and>
   handleTablesAdd [''users''] duplicate_tables_config \<noteq> duplicate_tables_config"
  by code_simp

text \<open>
  Claim C8, amended: adding table names that are all present in a duplicate-free
  \<open>selectedTables\<close> returns the configuration unchanged; adding columns whose derived
  ids are all present in \<open>selectedColumns\<close> and whose tables are all present in
  \<open>selectedTables\<close> returns the configuration unchanged; and for every configuration a
  repeated add changes nothing: the second of two equal adds returns what the first
  returned.
\<close>

theorem add_present_is_noop:
  "(distinct (selectedTables c) \<and> set ts \<subseteq> set (selectedTables c) \<longrightarrow>
      handleTablesAdd ts c = c) \<and>
   ((\<forall>col\<in>set cols. item_tableName col \<in> set (selectedTables c) \<and>
                     item_id col \<in> set (map col_id (selectedColumns c))) \<longrightarrow>
      handleColumnsAdd cols c = c) \<and>
   handleTablesAdd ts (handleTablesAdd ts c) = handleTablesAdd ts c \<and>
   handleColumnsAdd cols (handleColumnsAdd cols c) = handleColumnsAdd cols c"
  using handleTablesAdd_present [of c ts] handleColumnsAdd_present [of cols c]
    handleTablesAdd_twice [of ts c] handleColumnsAdd_twice [of cols c]
  by simp

theorem add_present_is_noop_witness:
  "distinct (selectedTables users_config) \<and>
   set [''users''] \<subseteq> set (selectedTables users_config) \<and>
   item_tableName users_id_item \<in> set (selectedTables users_config) \<and>
   item_id users_id_item \<in> set (map col_id (selectedColumns users_config)) \<and>
   handleTablesAdd [''users''] users_config = users_config \<and>
   handleColumnsAdd [users_id_item] users_config = users_config"
proof -
  have a: "distinct (selectedTables users_config)"
    and b: "set [''users''] \<subseteq> set (selectedTables users_config)"
    and d: "item_tableName users_id_item \<in> set (selectedTables users_config)"
    and e: "item_id users_id_item \<in> set (map col_id (selectedColumns users_config))"
    by (simp_all add: users_config_def initialQueryConfig_def users_id_item_def item_id_def
          plainColumn_def)
  from d e have f: "\<forall>col\<in>set [users_id_item].
      item_tableName col \<in> set (selectedTables users_config) \<and>
      item_id col \<in> set (map col_id (selectedColumns users_config))"
    by simp
  from add_present_is_noop [of users_config "[''users'']" "[users_id_item]"] a b f
  have "handleTablesAdd [''users''] users_config = users_config \<and>
        handleColumnsAdd [users_id_item] users_config = users_config"
    by blast
  with a b d e show ?thesis by blast
qed



section \<open>The generator's output without a table, against the validator\<close>

lemma of_char_f: "(of_char (CHR ''f'') :: nat) = 102"
  by simp

lemma of_char_F: "(of_char (CHR ''F'') :: nat) = 70"
  by simp

lemma lowerChar_f:
  assumes "lowerChar x = CHR ''f''"
  shows "x = CHR ''f'' \<or> x = CHR ''F''"
proof (cases "65 \<le> (of_char x :: nat) \<and> (of_char x :: nat) \<le> 90")
  case True
  have "lowerChar x = char_of ((of_char x :: nat) + 32)"
    unfolding lowerChar_def Let_def using True by (rule if_P)
  with assms have "char_of ((of_char x :: nat) + 32) = CHR ''f''"
    by (simp only:)
  then have "(of_char (char_of ((of_char x :: nat) + 32)) :: nat) = of_char (CHR ''f'')"
    by (simp only:)
  then have "((of_char x :: nat) + 32) mod 256 = 102"
    by (simp only: of_char_of of_char_f)
  with True have "(of_char x :: nat) = 70"
    by simp
  then have "(of_char x :: nat) = of_char (CHR ''F'')"
    by (simp only: of_char_F)
  then have "x = CHR ''F''"
    by (simp only: of_char_eq_iff)
  then show ?thesis ..
next
  case False
  have "lowerChar x = x"
    unfolding lowerChar_def Let_def using False by (rule if_not_P)
  with assms have "x = CHR ''f''"
    by (simp only:)
  then show ?thesis ..
qed

lemma digit_char_no_f:
  assumes "d < (10::nat)"
  shows "char_of (48 + d) \<noteq> CHR ''f'' \<and> char_of (48 + d) \<noteq> CHR ''F''"
proof -
  have "(48 + d) mod 256 = 48 + d"
    using assms by simp
  then have "(of_char (char_of (48 + d)) :: nat) = 48 + d"
    by (simp only: of_char_of)
  then have h: "(of_char (char_of (48 + d)) :: nat) \<noteq> 102 \<and>
             (of_char (char_of (48 + d)) :: nat) \<noteq> 70"
    using assms by simp
  have "(of_char (char_of (48 + d)) :: nat) \<noteq> of_char (CHR ''f'') \<and>
             (of_char (char_of (48 + d)) :: nat) \<noteq> of_char (CHR ''F'')"
    unfolding of_char_f of_char_F by (rule h)
  then show ?thesis
    unfolding of_char_eq_iff .
qed

lemma natToString_no_f:
  "CHR ''f'' \<notin> set (natToString n) \<and> CHR ''F'' \<notin> set (natToString n)"
proof (induction n rule: natToString.induct)
  case (1 n)
  show ?case
  proof (cases "n < 10")
    case True
    then have "natToString n = [char_of (48 + n)]"
      by (subst natToString.simps) (simp only: if_True)
    with digit_char_no_f [OF True] show ?thesis
      by (simp only: set_simps insert_iff empty_iff) metis
  next
    case False
    then have e: "natToString n = natToString (n div 10) @ [char_of (48 + n mod 10)]"
      by (subst natToString.simps) (simp only: if_False)
    have "n mod 10 < 10" by simp
    from digit_char_no_f [OF this] 1 [OF False] show ?thesis
      unfolding e by (simp only: set_append set_simps insert_iff empty_iff Un_iff) metis
  qed
qed

lemma validateSQL_from_error:
  "''Query must include FROM clause'' \<in> set (errors (validateSQL sql)) \<longleftrightarrow>
   \<not> sublist ''from'' (toLowerCase (trim sql))"
  by (simp add: validateSQL_def Let_def includes_str_sublist)

lemma set_trim: "set (trim s) \<subseteq> set s"
proof -
  have "set (trim s) \<subseteq> set (rev (dropWhile isWhiteSpace s))"
    unfolding trim_def set_rev by (auto dest: set_dropWhileD)
  also have "\<dots> \<subseteq> set s"
    unfolding set_rev by (auto dest: set_dropWhileD)
  finally show ?thesis .
qed

lemma no_from_without_f:
  assumes "CHR ''f'' \<notin> set s" and "CHR ''F'' \<notin> set s"
  shows "\<not> sublist ''from'' (toLowerCase (trim s))"
proof
  assume "sublist ''from'' (toLowerCase (trim s))"
  then have "set ''from'' \<subseteq> set (toLowerCase (trim s))"
    by (rule set_mono_sublist)
  then have "CHR ''f'' \<in> lowerChar ` set (trim s)"
    by (simp add: toLowerCase_def)
  then obtain x where "x \<in> set (trim s)" and "lowerChar x = CHR ''f''"
    by auto
  with set_trim [of s] lowerChar_f [of x] assms show False
    by auto
qed

lemma generateSQL_bare:
  assumes "selectedTables c = []" "selectedColumns c = []" "joins c = []" "conditions c = []"
    "groupBy c = []" "orderBy c = []"
  shows "CHR ''f'' \<notin> set (generateSQL c) \<and> CHR ''F'' \<notin> set (generateSQL c)"
proof -
  have sel: "selectClause c = ''SELECT *'' \<or> selectClause c = ''SELECT DISTINCT *''"
    using assms by (simp add: selectClause_def Let_def)
  have lim: "limitParts c = [] \<or> (\<exists>n. limitParts c = [''LIMIT '' @ natToString n])"
    by (auto simp: limitParts_def numberToString_def split: option.split)
  have parts: "generateSQL_parts c = selectClause c # limitParts c"
    using assms
    by (simp add: generateSQL_parts_def fromParts_def joinParts_def whereParts_def
          groupByParts_def orderByParts_def)
  from sel lim show ?thesis
    unfolding generateSQL_def parts
    using natToString_no_f by auto
qed

text \<open>
  Claim C10, as stated, at a configuration with no table and one column rendered through
  \<open>EXTRACT\<close>: the rendered text has no FROM clause, yet it contains the letters of
  \<open>FROM\<close> inside \<open>EXTRACT(year FROM ...)\<close>, so \<open>validateSQL\<close> does not record the
  missing-FROM error and accepts the text.
\<close>

theorem generateSQL_without_tables_counterexample:
  "selectedTables extract_config = [] \<and>
   generateSQL extract_config = ''SELECT\<newline>  EXTRACT(year FROM orders.placed)'' \<and>
   ''Query must include FROM clause'' \<notin>
     set (errors (validateSQL (generateSQL extract_config))) \<and>
   isValid (validateSQL (generateSQL extract_config))"
  by code_simp

text \<open>
  Claim C10, amended: for every configuration whose \<open>selectedTables\<close> list is empty,
  \<open>generateSQL\<close> returns a text with no FROM clause, and the FROM rule of
  \<open>validateSQL\<close> rejects that text exactly when its trimmed, lower-cased form does not
  contain the letters \<open>from\<close> anywhere; it does reject it whenever the configuration
  has no selected columns, joins, conditions, \<open>groupBy\<close> and \<open>orderBy\<close> entries
  either.
\<close>

theorem generateSQL_without_tables:
  assumes "selectedTables c = []"
  shows "From \<notin> set (map clause_of (generateSQL_parts c)) \<and>
         (''Query must include FROM clause'' \<in> set (errors (validateSQL (generateSQL c))) \<longleftrightarrow>
            \<not> sublist ''from'' (toLowerCase (trim (generateSQL c)))) \<and>
         (selectedColumns c = [] \<and> joins c = [] \<and> conditions c = [] \<and> groupBy c = [] \<and>
          orderBy c = [] \<longrightarrow>
            ''Query must include FROM clause'' \<in> set (errors (validateSQL (generateSQL c))))"
proof -
  have a: "From \<notin> set (map clause_of (generateSQL_parts c))"
    unfolding clauses_generateSQL_parts using assms
    by (simp split: option.split)
  have b: "''Query must include FROM clause'' \<in> set (errors (validateSQL (generateSQL c))) \<longleftrightarrow>
            \<not> sublist ''from'' (toLowerCase (trim (generateSQL c)))"
    by (rule validateSQL_from_error)
  have d: "''Query must include FROM clause'' \<in> set (errors (validateSQL (generateSQL c)))"
    if "selectedColumns c = []" "joins c = []" "conditions c = []" "groupBy c = []"
       "orderBy c = []"
  proof -
    from assms that have "CHR ''f'' \<notin> set (generateSQL c) \<and> CHR ''F'' \<notin> set (generateSQL c)"
      by (rule generateSQL_bare)
    then have "\<not> sublist ''from'' (toLowerCase (trim (generateSQL c)))"
      by (simp add: no_from_without_f)
    with b show ?thesis by blast
  qed
  from a b d show ?thesis by blast
qed

theorem generateSQL_without_tables_witness:
  "selectedTables initialQueryConfig = [] \<and>
   generateSQL initialQueryConfig = ''SELECT *'' \<and>
   From \<notin> set (map clause_of (generateSQL_parts initialQueryConfig)) \<and>
   ''Query must include FROM clause'' \<in>
     set (errors (validateSQL (generateSQL initialQueryConfig)))"
proof -
  have a: "selectedTables initialQueryConfig = []"
    by (simp add: initialQueryConfig_def)
  have b: "selectedColumns initialQueryConfig = [] \<and> joins initialQueryConfig = [] \<and>
      conditions initialQueryConfig = [] \<and> groupBy initialQueryConfig = [] \<and>
      orderBy initialQueryConfig = []"
    by (simp add: initialQueryConfig_def)
  have t: "generateSQL initialQueryConfig = ''SELECT *''"
    by code_simp
  from generateSQL_without_tables [OF a] b
  have "From \<notin> set (map clause_of (generateSQL_parts initialQueryConfig)) \<and>
        ''Query must include FROM clause'' \<in>
          set (errors (validateSQL (generateSQL initialQueryConfig)))"
    by blast
  with a t show ?thesis by blast
qed

end
